theory Spec2Isabelle
  imports Main "HOL-Library.Sublist" "HOL-Library.Multiset"
begin

section \<open>Python values\<close>

text \<open>
  The adapters work on what \<^verbatim>\<open>json.loads\<close> returns. A decoded value is \<^verbatim>\<open>None\<close>, a
  \<^verbatim>\<open>bool\<close>, an \<^verbatim>\<open>int\<close>, a \<^verbatim>\<open>str\<close>, a \<^verbatim>\<open>list\<close> or a \<^verbatim>\<open>dict\<close> with \<^verbatim>\<open>str\<close>
  keys, kept in insertion order. JSON numbers with a fraction or an exponent (Python floats)
  are left out of the model. Strings are lists of characters; the string operations of the
  code that depend on the alphabet (\<^verbatim>\<open>str.lower\<close>, \<^verbatim>\<open>repr\<close>) are modelled on ASCII.
\<close>

datatype json =
    JNull
  | JBool bool
  | JInt int
  | JStr string
  | JList "json list"
  | JObj "(string \<times> json) list"

text \<open>The exceptions the modelled code can raise and does not catch.\<close>

datatype py_error = AttributeError | TypeError | KeyError | IndexError

text \<open>\<^verbatim>\<open>s.startswith(p)\<close>, \<^verbatim>\<open>s[n:]\<close> is \<^const>\<open>drop\<close> and \<^verbatim>\<open>s[:n]\<close> is \<^const>\<open>take\<close>.\<close>

definition startswith :: "string \<Rightarrow> string \<Rightarrow> bool" where
  "startswith s p = (take (length p) s = p)"


text \<open>\<^verbatim>\<open>str.lower\<close> on the ASCII letters; every other character is kept.\<close>

definition lower_char :: "char \<Rightarrow> char" where
  "lower_char c =
     (case map_of (zip ''ABCDEFGHIJKLMNOPQRSTUVWXYZ'' ''abcdefghijklmnopqrstuvwxyz'') c of
        Some l \<Rightarrow> l
      | None \<Rightarrow> c)"

definition lower :: "string \<Rightarrow> string" where
  "lower s = map lower_char s"

text \<open>Truth value testing: \<^verbatim>\<open>if v:\<close>.\<close>

fun truthy :: "json \<Rightarrow> bool" where
  "truthy JNull = False"
| "truthy (JBool b) = b"
| "truthy (JInt n) = (n \<noteq> 0)"
| "truthy (JStr s) = (s \<noteq> [])"
| "truthy (JList xs) = (xs \<noteq> [])"
| "truthy (JObj kvs) = (kvs \<noteq> [])"

text \<open>
  \<^verbatim>\<open>d.get(k, default)\<close> on a dict; \<^verbatim>\<open>d.get(k)\<close> is \<open>dict_get d k JNull\<close>, since a missing
  key and a JSON \<^verbatim>\<open>null\<close> both give \<^verbatim>\<open>None\<close>.
\<close>

definition dict_get :: "(string \<times> json) list \<Rightarrow> string \<Rightarrow> json \<Rightarrow> json" where
  "dict_get d k dflt = (case map_of d k of Some v \<Rightarrow> v | None \<Rightarrow> dflt)"

text \<open>\<^verbatim>\<open>v.get(k, default)\<close> on any value: only a dict has the method.\<close>

fun py_get :: "json \<Rightarrow> string \<Rightarrow> json \<Rightarrow> py_error + json" where
  "py_get (JObj d) k dflt = Inr (dict_get d k dflt)"
| "py_get _ k dflt = Inl AttributeError"

text \<open>
  \<^verbatim>\<open>for x in v\<close> and \<^verbatim>\<open>enumerate(v)\<close>: a list gives its elements, a dict its keys, a
  string its characters; nothing else is iterable.
\<close>

fun py_iter :: "json \<Rightarrow> py_error + json list" where
  "py_iter (JList xs) = Inr xs"
| "py_iter (JObj d) = Inr (map (\<lambda>kv. JStr (fst kv)) d)"
| "py_iter (JStr s) = Inr (map (\<lambda>c. JStr [c]) s)"
| "py_iter _ = Inl TypeError"

text \<open>\<^verbatim>\<open>v.items()\<close>: only a dict has the method.\<close>

fun py_items :: "json \<Rightarrow> py_error + (string \<times> json) list" where
  "py_items (JObj d) = Inr d"
| "py_items _ = Inl AttributeError"

text \<open>\<^verbatim>\<open>v[0]\<close>: the first element of a list or string; a dict has no key \<^verbatim>\<open>0\<close>.\<close>

fun py_first :: "json \<Rightarrow> py_error + json" where
  "py_first (JList (x # xs)) = Inr x"
| "py_first (JList []) = Inl IndexError"
| "py_first (JStr (c # cs)) = Inr (JStr [c])"
| "py_first (JStr []) = Inl IndexError"
| "py_first (JObj d) = Inl KeyError"
| "py_first _ = Inl TypeError"

text \<open>Decimal numerals, for \<^verbatim>\<open>str(n)\<close> and for an integer in an f-string.\<close>

definition digit_char :: "nat \<Rightarrow> char" where
  "digit_char d = ''0123456789'' ! d"

function str_nat :: "nat \<Rightarrow> string" where
  "str_nat n = (if n < 10 then [digit_char n] else str_nat (n div 10) @ [digit_char (n mod 10)])"
  by pat_completeness auto
termination
  by (relation "measure id") auto

declare str_nat.simps [simp del]

definition str_int :: "int \<Rightarrow> string" where
  "str_int i = (if i < 0 then CHR ''-'' # str_nat (nat (- i)) else str_nat (nat i))"

text \<open>
  \<^verbatim>\<open>repr\<close> of a string: double quotes when the string has a single quote and no double
  quote, single quotes otherwise; the quote and the backslash are escaped, control
  characters are written \<^verbatim>\<open>\t\<close>, \<^verbatim>\<open>\n\<close>, \<^verbatim>\<open>\r\<close> or \<^verbatim>\<open>\xNN\<close>.
\<close>

definition hex_digit :: "nat \<Rightarrow> char" where
  "hex_digit d = ''0123456789abcdef'' ! d"

definition repr_char :: "char \<Rightarrow> char \<Rightarrow> string" where
  "repr_char q c =
     (let n = of_char c :: nat in
      if c = q \<or> c = CHR 0x5C then [CHR 0x5C, c]
      else if n = 9 then [CHR 0x5C, CHR ''t'']
      else if n = 10 then [CHR 0x5C, CHR ''n'']
      else if n = 13 then [CHR 0x5C, CHR ''r'']
      else if n < 32 \<or> n = 127 then
        [CHR 0x5C, CHR ''x'', hex_digit (n div 16), hex_digit (n mod 16)]
      else [c])"

definition repr_str :: "string \<Rightarrow> string" where
  "repr_str s =
     (let q = (if CHR 0x27 \<in> set s \<and> CHR 0x22 \<notin> set s then CHR 0x22 else CHR 0x27)
      in [q] @ concat (map (repr_char q) s) @ [q])"

text \<open>\<^verbatim>\<open>sep.join(xs)\<close>.\<close>

fun join :: "string \<Rightarrow> string list \<Rightarrow> string" where
  "join sep [] = []"
| "join sep [x] = x"
| "join sep (x # y # ys) = x @ sep @ join sep (y # ys)"

primrec py_repr :: "json \<Rightarrow> string" where
  "py_repr JNull = ''None''"
| "py_repr (JBool b) = (if b then ''True'' else ''False'')"
| "py_repr (JInt i) = str_int i"
| "py_repr (JStr s) = repr_str s"
| "py_repr (JList xs) = ''['' @ join '', '' (map py_repr xs) @ '']''"
| "py_repr (JObj kvs) =
     ''{'' @ join '', '' (map (\<lambda>kv. repr_str (fst kv) @ '': '' @ snd kv)
                              (map (map_prod id py_repr) kvs)) @ ''}''"

text \<open>
  \<^verbatim>\<open>str(v)\<close>, which is also what an f-string writes for \<^verbatim>\<open>{v}\<close>: a string is itself,
  every other value is its \<^verbatim>\<open>repr\<close>.
\<close>

fun py_str :: "json \<Rightarrow> string" where
  "py_str (JStr s) = s"
| "py_str v = py_repr v"

text \<open>
  A dict whose keys are decoded values, as \<^verbatim>\<open>sessions\<close> in \<^verbatim>\<open>_get_chat_data\<close>: a list
  or a dict is not hashable; \<^verbatim>\<open>True\<close> and \<^verbatim>\<open>1\<close> (and \<^verbatim>\<open>False\<close> and \<^verbatim>\<open>0\<close>) are the same
  key. Assigning to a key that is present replaces the value and keeps the key and its
  position; a new key goes to the end.
\<close>

fun hashable :: "json \<Rightarrow> bool" where
  "hashable (JList xs) = False"
| "hashable (JObj d) = False"
| "hashable _ = True"

fun key_eq :: "json \<Rightarrow> json \<Rightarrow> bool" where
  "key_eq (JBool a) (JInt n) = (n = (if a then 1 else 0))"
| "key_eq (JInt n) (JBool a) = (n = (if a then 1 else 0))"
| "key_eq a b = (a = b)"

type_synonym pydict = "(json \<times> json) list"

fun dict_set :: "pydict \<Rightarrow> json \<Rightarrow> json \<Rightarrow> pydict" where
  "dict_set [] k v = [(k, v)]"
| "dict_set ((k', v') # d) k v =
     (if key_eq k' k then (k', v) # d else (k', v') # dict_set d k v)"

definition setitem :: "pydict \<Rightarrow> json \<Rightarrow> json \<Rightarrow> py_error + pydict" where
  "setitem d k v = (if hashable k then Inr (dict_set d k v) else Inl TypeError)"

fun dict_lookup :: "pydict \<Rightarrow> json \<Rightarrow> json option" where
  "dict_lookup [] k = None"
| "dict_lookup ((k', v') # d) k = (if key_eq k' k then Some v' else dict_lookup d k)"


section \<open>base.py: the session model\<close>

text \<open>
  \<^verbatim>\<open>SessionInfo\<close>. The dataclass annotates \<^verbatim>\<open>session_id: str\<close> and
  \<^verbatim>\<open>summary: str | None\<close>, but nothing enforces the annotations and the Cursor adapter
  stores decoded JSON values in both fields, so the record is polymorphic in them.
  \<^verbatim>\<open>modified\<close> is a \<^verbatim>\<open>datetime\<close>, modelled by its position on the time line.
\<close>

record ('i, 's) SessionInfo =
  session_id :: 'i
  source :: string
  project :: string
  path :: string
  modified :: int
  size :: nat
  summary :: 's

text \<open>The property \<^verbatim>\<open>SessionInfo.session_type\<close>: a function of the record, not a field.\<close>

definition session_type :: "(string, 's) SessionInfo \<Rightarrow> string" where
  "session_type s = (if startswith (session_id s) ''agent-'' then ''agent'' else ''main'')"


text \<open>\<^verbatim>\<open>SessionEntry\<close>; the optional fields are \<open>JNull\<close> when they are \<^verbatim>\<open>None\<close>.\<close>

record SessionEntry =
  role :: string
  content :: json
  timestamp :: json
  tool_name :: json
  tool_input :: json
  is_error :: bool
  model :: json

text \<open>
  The constructor call \<^verbatim>\<open>SessionEntry(role=..., content=..., timestamp=..., tool_name=...,
  tool_input=...)\<close> with the defaults of the dataclass for the fields the adapter never sets.
\<close>

definition new_entry :: "string \<Rightarrow> json \<Rightarrow> json \<Rightarrow> json \<Rightarrow> json \<Rightarrow> SessionEntry" where
  "new_entry r c ts tn ti =
     \<lparr>role = r, content = c, timestamp = ts, tool_name = tn, tool_input = ti,
      is_error = False, model = JNull\<rparr>"


section \<open>base.py: the adapter registry\<close>

text \<open>
  An adapter class, as the registry sees it: the answer of its class method
  \<^verbatim>\<open>is_available()\<close> and what \<^verbatim>\<open>list_sessions(project_filter)\<close> of an instance returns
  or raises. The registry's list is \<^verbatim>\<open>[ClaudeCodeAdapter, CursorAdapter]\<close>.
\<close>

record ('i, 's) adapter_class =
  adapter_name :: string
  is_available :: bool
  list_sessions_of :: "string option \<Rightarrow> py_error + ('i, 's) SessionInfo list"

text \<open>\<^verbatim>\<open>get_all_adapters\<close>: the loop appends the available classes, in order.\<close>

fun collect_adapters ::
  "('i, 's) adapter_class list \<Rightarrow> ('i, 's) adapter_class list \<Rightarrow> ('i, 's) adapter_class list"
where
  "collect_adapters adapters [] = adapters"
| "collect_adapters adapters (c # cs) =
     (if is_available c then collect_adapters (adapters @ [c]) cs
      else collect_adapters adapters cs)"

definition get_all_adapters :: "('i, 's) adapter_class list \<Rightarrow> ('i, 's) adapter_class list" where
  "get_all_adapters classes = collect_adapters [] classes"

text \<open>
  \<^verbatim>\<open>sorted(xs, key=f, reverse=True)\<close>: the list is reversed, sorted by a stable ascending
  sort and reversed again, so equal keys keep their original order.
\<close>

definition sorted_reverse :: "('a \<Rightarrow> 'k::linorder) \<Rightarrow> 'a list \<Rightarrow> 'a list" where
  "sorted_reverse f xs = rev (sort_key f (rev xs))"

text \<open>\<^verbatim>\<open>list_all_sessions\<close>: an exception of an adapter's \<^verbatim>\<open>list_sessions\<close> propagates.\<close>

fun extend_sessions ::
  "('i, 's) SessionInfo list \<Rightarrow> ('i, 's) adapter_class list \<Rightarrow> string option
     \<Rightarrow> py_error + ('i, 's) SessionInfo list"
where
  "extend_sessions sessions [] pf = Inr sessions"
| "extend_sessions sessions (a # as) pf =
     (case list_sessions_of a pf of
        Inl e \<Rightarrow> Inl e
      | Inr xs \<Rightarrow> extend_sessions (sessions @ xs) as pf)"

definition list_all_sessions ::
  "('i, 's) adapter_class list \<Rightarrow> string option \<Rightarrow> py_error + ('i, 's) SessionInfo list"
where
  "list_all_sessions classes pf =
     (case extend_sessions [] (get_all_adapters classes) pf of
        Inl e \<Rightarrow> Inl e
      | Inr sessions \<Rightarrow> Inr (sorted_reverse modified sessions))"


section \<open>cursor.py: the store\<close>

text \<open>
  The value column of a row of \<^verbatim>\<open>ItemTable\<close>, as the loop of \<^verbatim>\<open>_get_chat_data\<close> sees it:
  \<open>CellEmpty\<close> when \<^verbatim>\<open>not value\<close> holds (\<^verbatim>\<open>NULL\<close> or an empty text), \<open>CellCorrupt\<close> when
  \<^verbatim>\<open>json.loads(value)\<close> raises \<^verbatim>\<open>JSONDecodeError\<close>, \<open>CellJson j\<close> when it returns \<open>j\<close>.
  The column holds \<^verbatim>\<open>NULL\<close> or text, as the editor writes it.
\<close>

datatype cell = CellEmpty | CellCorrupt | CellJson json

text \<open>
  What \<^verbatim>\<open>sqlite3\<close> finds at a path: \<open>ConnectError\<close> when \<^verbatim>\<open>sqlite3.connect\<close> raises
  \<^verbatim>\<open>sqlite3.Error\<close>, \<open>QueryError\<close> when the connection opens and \<^verbatim>\<open>execute\<close> or
  \<^verbatim>\<open>fetchall\<close> raises it (a locked or corrupted file, no \<^verbatim>\<open>ItemTable\<close>), and otherwise
  the rows of the table.
\<close>

datatype store = ConnectError | QueryError | Table "(string \<times> cell) list"

text \<open>The calls on the connection that a run makes, in order.\<close>

datatype conn_event = Connect | Close

definition chat_keys :: "string list" where
  "chat_keys = [''aiService.prompts'', ''workbench.panel.aichat.view.aichat.chatdata'',
                ''composer.composerData'']"

text \<open>The \<^verbatim>\<open>SELECT ... WHERE [key] IN (...)\<close>.\<close>

definition fetchall :: "(string \<times> cell) list \<Rightarrow> (string \<times> cell) list" where
  "fetchall rows = filter (\<lambda>row. fst row \<in> set chat_keys) rows"

text \<open>
  The two \<^verbatim>\<open>enumerate\<close> loops of the chat-data key, over the chats of a list and over the
  tabs of a dict; they differ in the prefix of the synthesized id only (\<^verbatim>\<open>chat-\<close>,
  \<^verbatim>\<open>tab-\<close>).
\<close>

fun enumerate_chats :: "string \<Rightarrow> nat \<Rightarrow> json list \<Rightarrow> pydict \<Rightarrow> py_error + pydict" where
  "enumerate_chats pre i [] sessions = Inr sessions"
| "enumerate_chats pre i (chat # rest) sessions =
     (case chat of
        JObj d \<Rightarrow>
          if truthy (dict_get d ''messages'' JNull) then
            (case setitem sessions (dict_get d ''id'' (JStr (pre @ str_nat i))) chat of
               Inl e \<Rightarrow> Inl e
             | Inr sessions' \<Rightarrow> enumerate_chats pre (Suc i) rest sessions')
          else enumerate_chats pre (Suc i) rest sessions
      | _ \<Rightarrow> enumerate_chats pre (Suc i) rest sessions)"

text \<open>The loop over \<^verbatim>\<open>composers.items()\<close>.\<close>

fun composer_items :: "(string \<times> json) list \<Rightarrow> pydict \<Rightarrow> py_error + pydict" where
  "composer_items [] sessions = Inr sessions"
| "composer_items ((comp_id, composer) # rest) sessions =
     (case composer of
        JObj d \<Rightarrow>
          (case setitem sessions (JStr (''composer-'' @ comp_id)) composer of
             Inl e \<Rightarrow> Inl e
           | Inr sessions' \<Rightarrow> composer_items rest sessions')
      | _ \<Rightarrow> composer_items rest sessions)"

text \<open>The body of the loop over the fetched rows.\<close>

definition extract_row :: "string \<Rightarrow> cell \<Rightarrow> pydict \<Rightarrow> py_error + pydict" where
  "extract_row key val sessions =
     (case val of
        CellEmpty \<Rightarrow> Inr sessions
      | CellCorrupt \<Rightarrow> Inr sessions
      | CellJson data \<Rightarrow>
          if key = ''workbench.panel.aichat.view.aichat.chatdata'' then
            (case data of
               JList chats \<Rightarrow> enumerate_chats ''chat-'' 0 chats sessions
             | JObj d \<Rightarrow>
                 (case py_iter (dict_get d ''tabs'' (JList [])) of
                    Inl e \<Rightarrow> Inl e
                  | Inr tabs \<Rightarrow> enumerate_chats ''tab-'' 0 tabs sessions)
             | _ \<Rightarrow> Inr sessions)
          else if key = ''composer.composerData'' then
            (case data of
               JObj d \<Rightarrow>
                 (case py_items (dict_get d ''composers'' (JObj [])) of
                    Inl e \<Rightarrow> Inl e
                  | Inr composers \<Rightarrow> composer_items composers sessions)
             | _ \<Rightarrow> Inr sessions)
          else Inr sessions)"

fun extract_rows :: "(string \<times> cell) list \<Rightarrow> pydict \<Rightarrow> py_error + pydict" where
  "extract_rows [] sessions = Inr sessions"
| "extract_rows ((key, val) # rows) sessions =
     (case extract_row key val sessions of
        Inl e \<Rightarrow> Inl e
      | Inr sessions' \<Rightarrow> extract_rows rows sessions')"

text \<open>
  \<^verbatim>\<open>_get_chat_data\<close>, with the calls it makes on the connection. \<^verbatim>\<open>sqlite3.Error\<close> is
  caught and the sessions collected so far (none) are returned; \<^verbatim>\<open>conn.close()\<close> is the
  last statement of the \<^verbatim>\<open>try\<close> block, reached when nothing was raised before it. Any
  other exception leaves the function.
\<close>

fun get_chat_data_conn :: "store \<Rightarrow> conn_event list \<times> (py_error + pydict)" where
  "get_chat_data_conn ConnectError = ([], Inr [])"
| "get_chat_data_conn QueryError = ([Connect], Inr [])"
| "get_chat_data_conn (Table rows) =
     (case extract_rows (fetchall rows) [] of
        Inl e \<Rightarrow> ([Connect], Inl e)
      | Inr sessions \<Rightarrow> ([Connect, Close], Inr sessions))"

definition get_chat_data :: "store \<Rightarrow> py_error + pydict" where
  "get_chat_data st = snd (get_chat_data_conn st)"


section \<open>cursor.py: reading a session\<close>

definition role_map :: "(string \<times> string) list" where
  "role_map = [(''human'', ''user''), (''ai'', ''assistant''), (''system'', ''user'')]"

text \<open>\<^verbatim>\<open>_normalize_role\<close>: \<^verbatim>\<open>role.lower()\<close> exists for a string only.\<close>

definition normalize_role :: "json \<Rightarrow> py_error + string" where
  "normalize_role r =
     (case r of
        JStr s \<Rightarrow> Inr (case map_of role_map (lower s) of Some v \<Rightarrow> v | None \<Rightarrow> lower s)
      | _ \<Rightarrow> Inl AttributeError)"

text \<open>
  The body of the loop over the parts of a list content; \<open>r\<close> is the raw role of the
  message and \<open>ts\<close> its \<^verbatim>\<open>msg.get("timestamp")\<close>.
\<close>

definition read_part :: "json \<Rightarrow> json \<Rightarrow> json \<Rightarrow> SessionEntry list \<Rightarrow> py_error + SessionEntry list"
where
  "read_part r ts part entries =
     (case part of
        JObj p \<Rightarrow>
          if dict_get p ''type'' JNull = JStr ''text'' then
            (case normalize_role r of
               Inl e \<Rightarrow> Inl e
             | Inr nr \<Rightarrow>
                 Inr (entries @ [new_entry nr (dict_get p ''text'' (JStr [])) ts JNull JNull]))
          else if dict_get p ''type'' JNull = JStr ''tool_use'' then
            Inr (entries @
              [new_entry ''assistant''
                 (JStr (''[Tool: '' @ py_str (dict_get p ''name'' (JStr ''unknown'')) @ '']''))
                 ts (dict_get p ''name'' JNull) (dict_get p ''input'' JNull)])
          else if dict_get p ''type'' JNull = JStr ''tool_result'' then
            Inr (entries @
              [new_entry ''tool_result'' (JStr (py_str (dict_get p ''content'' (JStr []))))
                 ts JNull JNull])
          else Inr entries
      | JStr s \<Rightarrow>
          (case normalize_role r of
             Inl e \<Rightarrow> Inl e
           | Inr nr \<Rightarrow> Inr (entries @ [new_entry nr (JStr s) ts JNull JNull]))
      | _ \<Rightarrow> Inr entries)"

fun read_parts :: "json \<Rightarrow> json \<Rightarrow> json list \<Rightarrow> SessionEntry list \<Rightarrow> py_error + SessionEntry list"
where
  "read_parts r ts [] entries = Inr entries"
| "read_parts r ts (part # parts) entries =
     (case read_part r ts part entries of
        Inl e \<Rightarrow> Inl e
      | Inr entries' \<Rightarrow> read_parts r ts parts entries')"

text \<open>The body of the loop over the messages: \<^verbatim>\<open>msg.get\<close> exists for a dict only.\<close>

definition read_message :: "json \<Rightarrow> SessionEntry list \<Rightarrow> py_error + SessionEntry list" where
  "read_message msg entries =
     (case msg of
        JObj m \<Rightarrow>
          (let r = dict_get m ''role'' (JStr ''user'');
               c = dict_get m ''content'' (JStr []);
               ts = dict_get m ''timestamp'' JNull
           in case c of
                JList parts \<Rightarrow> read_parts r ts parts entries
              | JStr s \<Rightarrow>
                  (case normalize_role r of
                     Inl e \<Rightarrow> Inl e
                   | Inr nr \<Rightarrow> Inr (entries @ [new_entry nr (JStr s) ts JNull JNull]))
              | _ \<Rightarrow> Inr entries)
      | _ \<Rightarrow> Inl AttributeError)"

fun read_messages :: "json list \<Rightarrow> SessionEntry list \<Rightarrow> py_error + SessionEntry list" where
  "read_messages [] entries = Inr entries"
| "read_messages (msg # msgs) entries =
     (case read_message msg entries of
        Inl e \<Rightarrow> Inl e
      | Inr entries' \<Rightarrow> read_messages msgs entries')"

text \<open>
  \<^verbatim>\<open>read_session\<close>; \<open>fs\<close> gives what \<^verbatim>\<open>sqlite3\<close> finds at a path. The test
  \<^verbatim>\<open>session.session_id not in chat_data\<close> hashes the id, and is reached only when
  \<^verbatim>\<open>chat_data\<close> is not empty.
\<close>

definition read_session ::
  "(string \<Rightarrow> store) \<Rightarrow> (json, 's) SessionInfo \<Rightarrow> py_error + SessionEntry list"
where
  "read_session fs session =
     (case get_chat_data (fs (path session)) of
        Inl e \<Rightarrow> Inl e
      | Inr chat_data \<Rightarrow>
          if chat_data = [] then Inr []
          else if \<not> hashable (session_id session) then Inl TypeError
          else
            (case dict_lookup chat_data (session_id session) of
               None \<Rightarrow> Inr []
             | Some session_data \<Rightarrow>
                 (case py_get session_data ''messages'' (JList []) of
                    Inl e \<Rightarrow> Inl e
                  | Inr messages \<Rightarrow>
                      (case py_iter messages of
                         Inl e \<Rightarrow> Inl e
                       | Inr msgs \<Rightarrow> read_messages msgs []))))"


section \<open>cursor.py: listing the sessions\<close>

text \<open>
  The file \<^verbatim>\<open>workspace.json\<close> of a workspace directory: absent, not decodable
  (\<^verbatim>\<open>JSONDecodeError\<close>), or decoded.
\<close>

datatype descriptor = NoDescriptor | DescriptorCorrupt | DescriptorJson json

text \<open>The file \<^verbatim>\<open>state.vscdb\<close>: its content and its \<^verbatim>\<open>stat()\<close>.\<close>

record db_file =
  db_store :: store
  db_mtime :: int
  db_size :: nat

text \<open>An entry of the storage directory, in the order \<^verbatim>\<open>iterdir()\<close> gives them.\<close>

record workspace =
  ws_name :: string
  ws_is_dir :: bool
  ws_db :: "db_file option"
  ws_descriptor :: descriptor

record storage =
  storage_exists :: bool
  storage_dir :: string
  workspaces :: "workspace list"

text \<open>
  \<^verbatim>\<open>_get_workspace_folder\<close>: a \<^verbatim>\<open>JSONDecodeError\<close> is caught; \<^verbatim>\<open>data.get\<close> on a value that
  is not a dict and \<^verbatim>\<open>folder.startswith\<close> on a value that is not a string raise
  \<^verbatim>\<open>AttributeError\<close>, which is not.
\<close>

definition get_workspace_folder :: "descriptor \<Rightarrow> py_error + string option" where
  "get_workspace_folder dsc =
     (case dsc of
        NoDescriptor \<Rightarrow> Inr None
      | DescriptorCorrupt \<Rightarrow> Inr None
      | DescriptorJson data \<Rightarrow>
          (case py_get data ''folder'' JNull of
             Inl e \<Rightarrow> Inl e
           | Inr folder \<Rightarrow>
               if truthy folder then
                 (case folder of
                    JStr f \<Rightarrow> if startswith f ''file://'' then Inr (Some (drop 7 f)) else Inr (Some f)
                  | _ \<Rightarrow> Inl AttributeError)
               else Inr None))"

text \<open>\<^verbatim>\<open>_extract_summary\<close>.\<close>

definition extract_summary :: "json \<Rightarrow> py_error + json" where
  "extract_summary session_data =
     (case session_data of
        JObj d \<Rightarrow>
          if truthy (dict_get d ''title'' JNull) then Inr (dict_get d ''title'' JNull)
          else
            (let messages = dict_get d ''messages'' (JList []) in
             if truthy messages then
               (case py_first messages of
                  Inl e \<Rightarrow> Inl e
                | Inr first_msg \<Rightarrow>
                    (case py_get first_msg ''content'' (JStr []) of
                       Inl e \<Rightarrow> Inl e
                     | Inr c \<Rightarrow>
                         (case c of
                            JStr s \<Rightarrow> Inr (JStr (if length s > 60 then take 60 s @ ''...'' else s))
                          | _ \<Rightarrow> Inr JNull)))
             else Inr JNull)
      | _ \<Rightarrow> Inl AttributeError)"

text \<open>The loop over \<^verbatim>\<open>chat_data.items()\<close> of one workspace.\<close>

fun append_sessions ::
  "string \<Rightarrow> string \<Rightarrow> db_file \<Rightarrow> pydict \<Rightarrow> (json, json) SessionInfo list
     \<Rightarrow> py_error + (json, json) SessionInfo list"
where
  "append_sessions project_name vscdb_path db [] sessions = Inr sessions"
| "append_sessions project_name vscdb_path db ((sid, session_data) # rest) sessions =
     (case extract_summary session_data of
        Inl e \<Rightarrow> Inl e
      | Inr summ \<Rightarrow>
          append_sessions project_name vscdb_path db rest
            (sessions @
              [\<lparr>session_id = sid, source = ''cursor'', project = project_name,
                path = vscdb_path, modified = db_mtime db, size = db_size db,
                summary = summ\<rparr>]))"

text \<open>\<^verbatim>\<open>if project_filter and project_name != project_filter\<close>.\<close>

definition filtered_out :: "string option \<Rightarrow> string \<Rightarrow> bool" where
  "filtered_out project_filter project_name =
     (case project_filter of
        None \<Rightarrow> False
      | Some f \<Rightarrow> f \<noteq> [] \<and> project_name \<noteq> f)"

text \<open>The loop over the entries of the storage directory.\<close>

fun list_workspaces ::
  "string \<Rightarrow> string option \<Rightarrow> workspace list \<Rightarrow> (json, json) SessionInfo list
     \<Rightarrow> py_error + (json, json) SessionInfo list"
where
  "list_workspaces dir project_filter [] sessions = Inr sessions"
| "list_workspaces dir project_filter (w # ws) sessions =
     (if \<not> ws_is_dir w then list_workspaces dir project_filter ws sessions
      else
        (case ws_db w of
           None \<Rightarrow> list_workspaces dir project_filter ws sessions
         | Some db \<Rightarrow>
             (case get_workspace_folder (ws_descriptor w) of
                Inl e \<Rightarrow> Inl e
              | Inr folder \<Rightarrow>
                  (let project_name =
                         (case folder of
                            None \<Rightarrow> ws_name w
                          | Some f \<Rightarrow> if f = [] then ws_name w else f)
                   in if filtered_out project_filter project_name
                      then list_workspaces dir project_filter ws sessions
                      else
                        (case get_chat_data (db_store db) of
                           Inl e \<Rightarrow> Inl e
                         | Inr chat_data \<Rightarrow>
                             if chat_data = []
                             then list_workspaces dir project_filter ws sessions
                             else
                             (case append_sessions project_name
                                     (dir @ ''/'' @ ws_name w @ ''/state.vscdb'') db
                                     chat_data sessions of
                                Inl e \<Rightarrow> Inl e
                              | Inr sessions' \<Rightarrow>
                                  list_workspaces dir project_filter ws sessions'))))))"

definition list_sessions ::
  "storage \<Rightarrow> string option \<Rightarrow> py_error + (json, json) SessionInfo list"
where
  "list_sessions st project_filter =
     (if \<not> storage_exists st then Inr []
      else list_workspaces (storage_dir st) project_filter (workspaces st) [])"

text \<open>
  The class \<^verbatim>\<open>CursorAdapter\<close> as the registry sees it: \<^verbatim>\<open>is_available\<close> tells whether the
  storage directory exists.
\<close>

definition cursor_adapter :: "storage \<Rightarrow> (json, json) adapter_class" where
  "cursor_adapter st =
     \<lparr>adapter_name = ''cursor'', is_available = storage_exists st,
      list_sessions_of = list_sessions st\<rparr>"


section \<open>Notions the statements use\<close>

text \<open>
  What a part and a message contribute when read on their own, from an empty list of
  entries.
\<close>

definition entries_of_part :: "json \<Rightarrow> json \<Rightarrow> json \<Rightarrow> SessionEntry list" where
  "entries_of_part r ts part = (case read_part r ts part [] of Inl e \<Rightarrow> [] | Inr es \<Rightarrow> es)"

definition entries_of_message :: "json \<Rightarrow> SessionEntry list" where
  "entries_of_message msg = (case read_message msg [] of Inl e \<Rightarrow> [] | Inr es \<Rightarrow> es)"

text \<open>A well-formed message is a dict whose role (\<^verbatim>\<open>user\<close> when absent) is a string.\<close>

definition well_formed_message :: "json \<Rightarrow> bool" where
  "well_formed_message msg =
     (case msg of
        JObj m \<Rightarrow> (case dict_get m ''role'' (JStr ''user'') of JStr s \<Rightarrow> True | _ \<Rightarrow> False)
      | _ \<Rightarrow> False)"

text \<open>
  A part that is a dict with a \<^verbatim>\<open>type\<close> other than \<^verbatim>\<open>text\<close>, \<^verbatim>\<open>tool_use\<close> and
  \<^verbatim>\<open>tool_result\<close>, or that is neither a dict nor a string.
\<close>

definition unrecognized_part :: "json \<Rightarrow> bool" where
  "unrecognized_part part =
     (case part of
        JObj p \<Rightarrow> dict_get p ''type'' JNull \<noteq> JStr ''text'' \<and>
                  dict_get p ''type'' JNull \<noteq> JStr ''tool_use'' \<and>
                  dict_get p ''type'' JNull \<noteq> JStr ''tool_result''
      | JStr s \<Rightarrow> False
      | _ \<Rightarrow> True)"


















text \<open>The path of the store file of a workspace, \<^verbatim>\<open>workspace_dir / "state.vscdb"\<close>.\<close>

definition vscdb_path :: "string \<Rightarrow> workspace \<Rightarrow> string" where
  "vscdb_path dir w = dir @ ''/'' @ ws_name w @ ''/state.vscdb''"




section \<open>Example data\<close>

definition ex_session :: "string \<Rightarrow> int \<Rightarrow> (string, string option) SessionInfo" where
  "ex_session sid m =
     \<lparr>session_id = sid, source = ''cursor'', project = ''/home/u/proj'', path = ''/db'',
      modified = m, size = 1, summary = None\<rparr>"

definition ex_absent :: "(json, json) adapter_class" where
  "ex_absent =
     \<lparr>adapter_name = ''claude_code'', is_available = False,
      list_sessions_of = (\<lambda>pf. Inl KeyError)\<rparr>"

definition ex_messages :: "json list" where
  "ex_messages =
     [JObj [(''role'', JStr ''Human''), (''content'', JStr ''hi'')],
      JObj [(''role'', JStr ''ai''),
            (''content'', JList
               [JObj [(''type'', JStr ''text''), (''text'', JStr ''hello'')],
                JObj [(''type'', JStr ''tool_use''), (''name'', JStr ''grep''),
                      (''input'', JObj [(''q'', JStr ''x'')])],
                JObj [(''type'', JStr ''image'')],
                JStr ''hello''])],
      JObj [(''content'', JList
               [JObj [(''type'', JStr ''tool_result''), (''content'', JStr ''ok'')]])]]"

definition ex_chat :: "(string \<times> json) list" where
  "ex_chat = [(''id'', JStr ''abc''), (''messages'', JList ex_messages)]"

definition ex_rows :: "(string \<times> cell) list" where
  "ex_rows =
     [(''workbench.panel.aichat.view.aichat.chatdata'', CellJson (JList [JObj ex_chat]))]"

definition ex_table :: store where
  "ex_table = Table ex_rows"

definition ex_info :: "(json, json) SessionInfo" where
  "ex_info =
     \<lparr>session_id = JStr ''abc'', source = ''cursor'', project = ''/home/u/proj'',
      path = ''/ws/1f/state.vscdb'', modified = 5, size = 4096, summary = JStr ''hi''\<rparr>"

definition ex_composer_row :: "string \<times> cell" where
  "ex_composer_row =
     (''composer.composerData'',
      CellJson (JObj [(''composers'', JObj [(''c1'', JObj [(''title'', JStr ''t'')])])]))"


definition ex_bad_tabs_table :: store where
  "ex_bad_tabs_table =
     Table [(''workbench.panel.aichat.view.aichat.chatdata'',
             CellJson (JObj [(''tabs'', JInt 5)])),
            ex_composer_row]"

definition ex_workspace1 :: workspace where
  "ex_workspace1 =
     \<lparr>ws_name = ''1f'', ws_is_dir = True,
      ws_db = Some \<lparr>db_store = ex_table, db_mtime = 5, db_size = 4096\<rparr>,
      ws_descriptor = DescriptorJson (JObj [(''folder'', JStr ''file:///home/u/proj'')])\<rparr>"

definition ex_workspace2 :: workspace where
  "ex_workspace2 =
     \<lparr>ws_name = ''2a'', ws_is_dir = True,
      ws_db = Some \<lparr>db_store = Table [ex_composer_row], db_mtime = 9, db_size = 100\<rparr>,
      ws_descriptor = NoDescriptor\<rparr>"

definition ex_storage :: storage where
  "ex_storage =
     \<lparr>storage_exists = True, storage_dir = ''/ws'', workspaces = [ex_workspace1, ex_workspace2]\<rparr>"

definition ex_other :: "(json, json) SessionInfo" where
  "ex_other =
     \<lparr>session_id = JStr ''composer-c1'', source = ''cursor'', project = ''2a'',
      path = ''/ws/2a/state.vscdb'', modified = 9, size = 100, summary = JStr ''t''\<rparr>"




section \<open>Properties of the session model\<close>

text \<open>The equations that evaluate the examples.\<close>

lemmas ex_simps = get_chat_data_def ex_table_def ex_rows_def fetchall_def chat_keys_def extract_row_def
  ex_chat_def dict_get_def setitem_def ex_messages_def ex_info_def

lemmas ex_list_simps = ex_simps list_sessions_def ex_storage_def ex_workspace1_def
  ex_workspace2_def ex_composer_row_def ex_other_def get_workspace_folder_def startswith_def
  filtered_out_def extract_summary_def


lemma startswith_prefix: "startswith s p \<longleftrightarrow> prefix p s"
  unfolding startswith_def
  by (metis append_eq_conv_conj prefix_def take_is_prefix)

text \<open>
  Claim C1. A session is of type \<open>agent\<close> exactly when its id starts with \<open>agent-\<close>, and of
  type \<open>main\<close> otherwise; two sessions with the same id have the same type, whatever their
  source and other fields are.
\<close>

theorem session_type_agent_iff_prefix:
  "(session_type s = ''agent'' \<longleftrightarrow> prefix ''agent-'' (session_id s)) \<and>
   (session_type s = ''main'' \<longleftrightarrow> \<not> prefix ''agent-'' (session_id s)) \<and>
   (session_id t = session_id s \<longrightarrow> session_type t = session_type s)"
  by (simp add: session_type_def startswith_prefix)

theorem session_type_agent_iff_prefix_witness:
  "session_id (ex_session ''agent-7f'' 2\<lparr>source := ''claude_code'', project := ''/q''\<rparr>) =
     session_id (ex_session ''agent-7f'' 9) \<and>
   session_type (ex_session ''agent-7f'' 2\<lparr>source := ''claude_code'', project := ''/q''\<rparr>) =
     session_type (ex_session ''agent-7f'' 9) \<and>
   session_type (ex_session ''agent-7f'' 9) = ''agent'' \<and>
   session_type (ex_session ''tab-0'' 9) = ''main''"
  using session_type_agent_iff_prefix
    [of "ex_session ''agent-7f'' 9"
        "ex_session ''agent-7f'' 2\<lparr>source := ''claude_code'', project := ''/q''\<rparr>"]
    session_type_agent_iff_prefix [of "ex_session ''tab-0'' 9" "ex_session ''tab-0'' 9"]
  by (simp add: ex_session_def)


section \<open>Properties of the registry\<close>

lemma collect_adapters_filter: "collect_adapters acc cs = acc @ filter is_available cs"
  by (induction cs arbitrary: acc) auto

lemma get_all_adapters_filter: "get_all_adapters cs = filter is_available cs"
  by (simp add: get_all_adapters_def collect_adapters_filter)

lemma extend_sessions_concat:
  "\<forall>a \<in> set as. list_sessions_of a pf = Inr (ls a) \<Longrightarrow>
   extend_sessions acc as pf = Inr (acc @ concat (map ls as))"
  by (induction as arbitrary: acc) auto

lemma mset_sorted_reverse: "mset (sorted_reverse f xs) = mset xs"
  by (simp add: sorted_reverse_def)

lemma sorted_reverse_descending: "sorted_wrt (\<lambda>a b. f b \<le> f a) (sorted_reverse f xs)"
proof -
  have "sorted (map f (sort_key f (rev xs)))" by simp
  then have "sorted_wrt (\<lambda>a b. f a \<le> f b) (sort_key f (rev xs))"
    by (simp add: sorted_map)
  then show ?thesis
    by (simp add: sorted_reverse_def sorted_wrt_rev)
qed

text \<open>
  Claim C7. When the \<^verbatim>\<open>list_sessions\<close> of every available adapter returns,
  \<^verbatim>\<open>list_all_sessions\<close> returns the concatenation of these listings, in the order of the
  registry, sorted by \<^verbatim>\<open>modified\<close> in descending order: the result has the same sessions
  with the same multiplicities, and each session is at least as recent as the ones after
  it. An adapter that is not available contributes nothing and cannot make the call fail:
  the result is the one of the registry without it, whatever its \<^verbatim>\<open>list_sessions\<close> would
  do.
\<close>

theorem list_all_sessions_sorted_concat:
  "((\<forall>a \<in> set classes. is_available a \<longrightarrow> list_sessions_of a pf = Inr (ls a)) \<longrightarrow>
      (\<exists>r. list_all_sessions classes pf = Inr r \<and>
           r = sorted_reverse modified (concat (map ls (filter is_available classes))) \<and>
           mset r = mset (concat (map ls (filter is_available classes))) \<and>
           sorted_wrt (\<lambda>a b. modified b \<le> modified a) r)) \<and>
   (\<not> is_available u \<longrightarrow>
      list_all_sessions (cs1 @ u # cs2) pf = list_all_sessions (cs1 @ cs2) pf)"
proof (intro conjI impI)
  assume "\<forall>a \<in> set classes. is_available a \<longrightarrow> list_sessions_of a pf = Inr (ls a)"
  then have "\<forall>a \<in> set (filter is_available classes). list_sessions_of a pf = Inr (ls a)"
    by simp
  then have "extend_sessions [] (filter is_available classes) pf =
      Inr ([] @ concat (map ls (filter is_available classes)))"
    by (rule extend_sessions_concat)
  then show "\<exists>r. list_all_sessions classes pf = Inr r \<and>
           r = sorted_reverse modified (concat (map ls (filter is_available classes))) \<and>
           mset r = mset (concat (map ls (filter is_available classes))) \<and>
           sorted_wrt (\<lambda>a b. modified b \<le> modified a) r"
    by (simp add: list_all_sessions_def get_all_adapters_filter mset_sorted_reverse
        sorted_reverse_descending)
next
  assume "\<not> is_available u"
  then show "list_all_sessions (cs1 @ u # cs2) pf = list_all_sessions (cs1 @ cs2) pf"
    by (simp add: list_all_sessions_def get_all_adapters_filter)
qed

theorem list_all_sessions_sorted_concat_witness:
  "list_sessions ex_storage None = Inr [ex_info, ex_other] \<and>
   list_all_sessions [ex_absent, cursor_adapter ex_storage] None = Inr [ex_other, ex_info] \<and>
   list_all_sessions [ex_absent, cursor_adapter ex_storage] None =
     list_all_sessions [cursor_adapter ex_storage] None"
proof -
  have l: "list_sessions ex_storage None = Inr [ex_info, ex_other]"
    by (simp add: ex_list_simps)
  have m: "modified ex_info = 5" "modified ex_other = 9" "storage_exists ex_storage"
    by (simp_all add: ex_info_def ex_other_def ex_storage_def)
  show ?thesis
    using list_all_sessions_sorted_concat
      [of "[ex_absent, cursor_adapter ex_storage]" None "\<lambda>a. [ex_info, ex_other]"
          ex_absent "[]" "[cursor_adapter ex_storage]"]
    by (simp add: l m ex_absent_def cursor_adapter_def sorted_reverse_def list_all_sessions_def
        get_all_adapters_def)
qed


section \<open>Properties of reading a session\<close>

lemma read_part_appends:
  "normalize_role r = Inr nr \<Longrightarrow>
   read_part r ts part entries = Inr (entries @ entries_of_part r ts part)"
  by (simp add: read_part_def entries_of_part_def split: json.splits)

lemma read_parts_concat:
  "normalize_role r = Inr nr \<Longrightarrow>
   read_parts r ts parts entries = Inr (entries @ concat (map (entries_of_part r ts) parts))"
  by (induction parts arbitrary: entries) (simp_all add: read_part_appends)

lemma read_message_appends:
  "well_formed_message msg \<Longrightarrow>
   read_message msg entries = Inr (entries @ entries_of_message msg)"
  by (auto simp: well_formed_message_def read_message_def entries_of_message_def Let_def
      normalize_role_def read_parts_concat split: json.splits)

lemma read_messages_concat:
  "\<forall>m \<in> set msgs. well_formed_message m \<Longrightarrow>
   read_messages msgs entries = Inr (entries @ concat (map entries_of_message msgs))"
  by (induction msgs arbitrary: entries) (simp_all add: read_message_appends)

lemma entries_of_message_parts:
  "well_formed_message (JObj m) \<Longrightarrow> dict_get m ''content'' (JStr []) = JList parts \<Longrightarrow>
   entries_of_message (JObj m) =
     concat (map (entries_of_part (dict_get m ''role'' (JStr ''user''))
                    (dict_get m ''timestamp'' JNull)) parts)"
  by (auto simp: well_formed_message_def read_message_def entries_of_message_def Let_def
      normalize_role_def read_parts_concat split: json.splits)

lemma dict_lookup_nonempty: "dict_lookup cd k = Some v \<Longrightarrow> cd \<noteq> []"
  by (cases cd) auto

text \<open>
  Claim C2. For a session that the store holds and whose messages are well formed,
  \<^verbatim>\<open>read_session\<close> returns the entries of the first message, then those of the second, and
  so on, and the entries of a message with a list content are those of its first part,
  then those of its second part, and so on: the result is the concatenation, in the order
  of the raw record, of what each message and each part yields on its own. Nothing is
  moved, sorted or removed, whatever the shape of each content is.
\<close>

theorem read_session_keeps_order:
  assumes "get_chat_data (fs (path session)) = Inr chat_data"
    and "hashable (session_id session)"
    and "dict_lookup chat_data (session_id session) = Some (JObj d)"
    and "dict_get d ''messages'' (JList []) = JList msgs"
    and "\<forall>m \<in> set msgs. well_formed_message m"
  shows "read_session fs session = Inr (concat (map entries_of_message msgs)) \<and>
         (\<forall>m parts. JObj m \<in> set msgs \<and> dict_get m ''content'' (JStr []) = JList parts \<longrightarrow>
            entries_of_message (JObj m) =
              concat (map (entries_of_part (dict_get m ''role'' (JStr ''user''))
                             (dict_get m ''timestamp'' JNull)) parts))"
  using assms
  by (auto simp: read_session_def dict_lookup_nonempty read_messages_concat
      entries_of_message_parts)

theorem read_session_keeps_order_witness:
  "read_session (\<lambda>p. ex_table) ex_info =
     Inr [new_entry ''user'' (JStr ''hi'') JNull JNull JNull,
          new_entry ''assistant'' (JStr ''hello'') JNull JNull JNull,
          new_entry ''assistant'' (JStr ''[Tool: grep]'') JNull (JStr ''grep'')
            (JObj [(''q'', JStr ''x'')]),
          new_entry ''assistant'' (JStr ''hello'') JNull JNull JNull,
          new_entry ''tool_result'' (JStr ''ok'') JNull JNull JNull]"
  using read_session_keeps_order
    [of "\<lambda>p. ex_table" ex_info "[(JStr ''abc'', JObj ex_chat)]" ex_chat ex_messages]
  by (simp add: ex_simps well_formed_message_def entries_of_message_def read_message_def
      read_part_def normalize_role_def role_map_def lower_def lower_char_def new_entry_def)

text \<open>
  Claim C3. A role that is a string is looked up, lower-cased, in the alias table:
  \<open>human\<close> gives \<open>user\<close>, \<open>ai\<close> gives \<open>assistant\<close>, \<open>system\<close> gives \<open>user\<close>, and any other
  role is its lower-cased self. The parts of a message with a list content are read with
  the role and the timestamp of the message, and each part appends one entry according to
  its \<^verbatim>\<open>type\<close>: a \<open>text\<close> part an entry with the normalized role and the text of the
  part; a \<open>tool_use\<close> part an \<open>assistant\<close> entry whose content is \<open>[Tool: \<close>name\<open>]\<close> and
  which carries the name and the input of the tool; a \<open>tool_result\<close> part a
  \<open>tool_result\<close> entry whose content is \<^verbatim>\<open>str\<close> of the payload; a bare string an entry
  with the normalized role and the string.
\<close>

theorem read_part_classifies:
  "normalize_role (JStr s) =
     Inr (if lower s = ''human'' then ''user''
          else if lower s = ''ai'' then ''assistant''
          else if lower s = ''system'' then ''user''
          else lower s) \<and>
   (dict_get m ''content'' (JStr []) = JList parts \<longrightarrow>
      read_message (JObj m) entries =
        read_parts (dict_get m ''role'' (JStr ''user'')) (dict_get m ''timestamp'' JNull)
          parts entries) \<and>
   (normalize_role (JStr s) = Inr nr \<and> dict_get p1 ''type'' JNull = JStr ''text'' \<longrightarrow>
      read_part (JStr s) ts (JObj p1) entries =
        Inr (entries @
          [\<lparr>role = nr, content = dict_get p1 ''text'' (JStr []), timestamp = ts,
            tool_name = JNull, tool_input = JNull, is_error = False, model = JNull\<rparr>])) \<and>
   (dict_get p2 ''type'' JNull = JStr ''tool_use'' \<longrightarrow>
      read_part r ts (JObj p2) entries =
        Inr (entries @
          [\<lparr>role = ''assistant'',
            content = JStr (''[Tool: '' @ py_str (dict_get p2 ''name'' (JStr ''unknown'')) @ '']''),
            timestamp = ts, tool_name = dict_get p2 ''name'' JNull,
            tool_input = dict_get p2 ''input'' JNull, is_error = False, model = JNull\<rparr>])) \<and>
   (dict_get p3 ''type'' JNull = JStr ''tool_result'' \<longrightarrow>
      read_part r ts (JObj p3) entries =
        Inr (entries @
          [\<lparr>role = ''tool_result'', content = JStr (py_str (dict_get p3 ''content'' (JStr []))),
            timestamp = ts, tool_name = JNull, tool_input = JNull, is_error = False,
            model = JNull\<rparr>])) \<and>
   (normalize_role (JStr s) = Inr nr \<longrightarrow>
      read_part (JStr s) ts (JStr t) entries =
        Inr (entries @
          [\<lparr>role = nr, content = JStr t, timestamp = ts, tool_name = JNull,
            tool_input = JNull, is_error = False, model = JNull\<rparr>]))"
  by (simp add: normalize_role_def role_map_def read_part_def new_entry_def read_message_def)

theorem read_part_classifies_witness:
  "read_part (JStr ''Human'') (JInt 17) (JObj [(''type'', JStr ''text''), (''text'', JStr ''hi'')]) [] =
     Inr [\<lparr>role = ''user'', content = JStr ''hi'', timestamp = JInt 17,
            tool_name = JNull, tool_input = JNull, is_error = False, model = JNull\<rparr>] \<and>
   read_part (JStr ''AI'') (JInt 17)
      (JObj [(''type'', JStr ''tool_use''), (''name'', JStr ''grep''), (''input'', JList [])]) [] =
     Inr [\<lparr>role = ''assistant'', content = JStr ''[Tool: grep]'', timestamp = JInt 17,
            tool_name = JStr ''grep'', tool_input = JList [], is_error = False, model = JNull\<rparr>] \<and>
   read_part (JStr ''AI'') (JInt 17)
      (JObj [(''type'', JStr ''tool_result''), (''content'', JList [JInt 1, JNull])]) [] =
     Inr [\<lparr>role = ''tool_result'', content = JStr ''[1, None]'', timestamp = JInt 17,
            tool_name = JNull, tool_input = JNull, is_error = False, model = JNull\<rparr>] \<and>
   read_part (JStr ''Human'') (JInt 17) (JStr ''bare'') [] =
     Inr [\<lparr>role = ''user'', content = JStr ''bare'', timestamp = JInt 17,
            tool_name = JNull, tool_input = JNull, is_error = False, model = JNull\<rparr>] \<and>
   read_message (JObj [(''role'', JStr ''System''), (''content'', JList [JStr ''s''])]) [] =
     Inr [\<lparr>role = ''user'', content = JStr ''s'', timestamp = JNull,
            tool_name = JNull, tool_input = JNull, is_error = False, model = JNull\<rparr>]"
  using read_part_classifies
    [of "''Human''" "[(''role'', JStr ''System''), (''content'', JList [JStr ''s''])]"
        "[JStr ''s'']" "[]" "''user''"
        "[(''type'', JStr ''text''), (''text'', JStr ''hi'')]" "JInt 17"
        "[(''type'', JStr ''tool_use''), (''name'', JStr ''grep''), (''input'', JList [])]"
        "JStr ''AI''"
        "[(''type'', JStr ''tool_result''), (''content'', JList [JInt 1, JNull])]" "''bare''"]
  by (simp add: dict_get_def lower_def lower_char_def str_int_def str_nat.simps digit_char_def
      read_part_def normalize_role_def role_map_def new_entry_def)

lemma unrecognized_part_skipped:
  "unrecognized_part part \<Longrightarrow> read_part r ts part entries = Inr entries"
  by (auto simp: unrecognized_part_def read_part_def split: json.splits)

lemma read_parts_append:
  "read_parts r ts (ps1 @ ps2) entries =
     (case read_parts r ts ps1 entries of Inl e \<Rightarrow> Inl e | Inr es \<Rightarrow> read_parts r ts ps2 es)"
  by (induction ps1 arbitrary: entries) (auto split: sum.splits)

lemma read_parts_skip:
  "unrecognized_part part \<Longrightarrow>
   read_parts r ts (ps1 @ part # ps2) entries = read_parts r ts (ps1 @ ps2) entries"
  by (simp add: read_parts_append unrecognized_part_skipped split: sum.splits)

text \<open>
  Claim C10. An unrecognized part appends no entry, and the loop goes on with the parts
  after it: reading a list of parts, or a message whose content is that list, gives the
  result of reading the list without the part.
\<close>

theorem unrecognized_part_dropped:
  "unrecognized_part part \<Longrightarrow>
     read_part r ts part entries = Inr entries \<and>
     read_parts r ts (ps1 @ part # ps2) entries = read_parts r ts (ps1 @ ps2) entries \<and>
     read_message (JObj ((''content'', JList (ps1 @ part # ps2)) # m)) entries =
       read_message (JObj ((''content'', JList (ps1 @ ps2)) # m)) entries"
  by (simp add: read_parts_skip unrecognized_part_skipped read_message_def dict_get_def Let_def)

theorem unrecognized_part_dropped_witness:
  "unrecognized_part (JObj [(''type'', JStr ''image''), (''url'', JStr ''u'')]) \<and>
   unrecognized_part (JInt 3) \<and>
   read_message (JObj [(''content'',
        JList [JStr ''a'', JObj [(''type'', JStr ''image''), (''url'', JStr ''u'')], JStr ''b'']),
        (''role'', JStr ''ai'')]) [] =
     Inr [new_entry ''assistant'' (JStr ''a'') JNull JNull JNull,
          new_entry ''assistant'' (JStr ''b'') JNull JNull JNull]"
  using unrecognized_part_dropped
    [of "JObj [(''type'', JStr ''image''), (''url'', JStr ''u'')]" "JStr ''ai''" JNull "[]"
        "[JStr ''a'']" "[JStr ''b'']" "[(''role'', JStr ''ai'')]"]
  by (simp add: unrecognized_part_def dict_get_def read_message_def read_part_def
      normalize_role_def role_map_def lower_def lower_char_def)


section \<open>Properties of the extraction from the store\<close>













lemma get_chat_data_closes_on_success:
  "get_chat_data st = Inr sessions \<Longrightarrow> st \<noteq> ConnectError \<Longrightarrow> st \<noteq> QueryError \<Longrightarrow>
   fst (get_chat_data_conn st) = [Connect, Close]"
  by (cases st) (auto simp: get_chat_data_def split: sum.splits)

text \<open>
  Claim C9, at a store whose connection opens and whose query raises \<^verbatim>\<open>sqlite3.Error\<close>,
  and at the table of claim C5 whose chat-data value makes the loop raise \<^verbatim>\<open>TypeError\<close>:
  \<^verbatim>\<open>_get_chat_data\<close> returns an empty dict in the first case and raises in the second,
  and in both the only call it has made on the connection is the one that opened it.
\<close>

theorem failed_steps_leave_connection_open:
  "get_chat_data_conn QueryError = ([Connect], Inr []) \<and>
   get_chat_data_conn ex_bad_tabs_table = ([Connect], Inl TypeError)"
  by (simp add: ex_bad_tabs_table_def ex_composer_row_def fetchall_def chat_keys_def
      extract_row_def dict_get_def)


section \<open>Properties of the listing\<close>

lemma append_sessions_prepend:
  "append_sessions pn p db cd (a @ b) =
     (case append_sessions pn p db cd b of Inl e \<Rightarrow> Inl e | Inr r \<Rightarrow> Inr (a @ r))"
proof (induction cd arbitrary: b)
  case Nil
  then show ?case by simp
next
  case (Cons kv cd)
  obtain sid sd where kv: "kv = (sid, sd)" by (cases kv)
  show ?case
    unfolding kv using Cons.IH [of "b @ [x]" for x]
    by (simp split: sum.splits)
qed

lemma append_sessions_acc:
  "append_sessions pn p db cd acc =
     (case append_sessions pn p db cd [] of Inl e \<Rightarrow> Inl e | Inr new \<Rightarrow> Inr (acc @ new))"
  using append_sessions_prepend [of pn p db cd acc "[]"] by simp

lemma append_sessions_project:
  "append_sessions pn p db cd acc = Inr r \<Longrightarrow> \<forall>s \<in> set acc. project s = pn \<Longrightarrow>
   \<forall>s \<in> set r. project s = pn"
proof (induction cd arbitrary: acc)
  case Nil
  then show ?case by simp
next
  case (Cons kv cd)
  obtain sid sd where kv: "kv = (sid, sd)" by (cases kv)
  from Cons.prems show ?case
    unfolding kv
    by (auto split: sum.splits dest!: Cons.IH)
qed

lemma append_sessions_filter_same:
  assumes "append_sessions pn p db cd acc = Inr r"
  shows "append_sessions pn p db cd (filter (\<lambda>s. project s = pn) acc) =
           Inr (filter (\<lambda>s. project s = pn) r)"
proof -
  from assms obtain new where new: "append_sessions pn p db cd [] = Inr new" and r: "r = acc @ new"
    by (subst (asm) append_sessions_acc) (auto split: sum.splits)
  from new have "\<forall>s \<in> set new. project s = pn"
    by (rule append_sessions_project) simp
  then have "filter (\<lambda>s. project s = pn) new = new"
    by (simp add: filter_id_conv)
  with new r show ?thesis
    by (subst append_sessions_acc) simp
qed

lemma append_sessions_filter_other:
  assumes "append_sessions pn p db cd acc = Inr r" and "pn \<noteq> P"
  shows "filter (\<lambda>s. project s = P) r = filter (\<lambda>s. project s = P) acc"
proof -
  from assms obtain new where new: "append_sessions pn p db cd [] = Inr new" and r: "r = acc @ new"
    by (subst (asm) append_sessions_acc) (auto split: sum.splits)
  from new have "\<forall>s \<in> set new. project s = pn"
    by (rule append_sessions_project) simp
  with assms(2) have "filter (\<lambda>s. project s = P) new = []"
    by (auto simp: filter_empty_conv)
  with r show ?thesis by simp
qed

lemma list_workspaces_filter:
  "P \<noteq> [] \<Longrightarrow> list_workspaces dir None ws acc = Inr all \<Longrightarrow>
   list_workspaces dir (Some P) ws (filter (\<lambda>s. project s = P) acc) =
     Inr (filter (\<lambda>s. project s = P) all)"
proof (induction ws arbitrary: acc)
  case Nil
  then show ?case by simp
next
  case (Cons w ws)
  show ?case
  proof (cases "ws_is_dir w")
    case False
    with Cons show ?thesis by simp
  next
    case dir: True
    show ?thesis
    proof (cases "ws_db w")
      case None
      with dir Cons show ?thesis by simp
    next
      case (Some db)
      show ?thesis
      proof (cases "get_workspace_folder (ws_descriptor w)")
        case (Inl e)
        with dir Some Cons.prems show ?thesis by simp
      next
        case (Inr folder)
        define pn where "pn = (case folder of None \<Rightarrow> ws_name w | Some f \<Rightarrow> if f = [] then ws_name w else f)"
        show ?thesis
        proof (cases "get_chat_data (db_store db)")
          case (Inl e)
          with dir Some Inr Cons.prems show ?thesis by (simp add: filtered_out_def Let_def)
        next
          case cd: (Inr chat_data)
          show ?thesis
          proof (cases "chat_data = []")
            case True
            with dir Some Inr cd Cons.prems Cons.IH[of acc] show ?thesis
              by (simp add: filtered_out_def Let_def)
          next
            case ne: False
            from dir Some Inr cd ne Cons.prems(2) obtain r where
              r: "append_sessions pn (dir @ ''/'' @ ws_name w @ ''/state.vscdb'') db chat_data acc = Inr r"
              and rest: "list_workspaces dir None ws r = Inr all"
              by (auto simp: filtered_out_def pn_def Let_def split: sum.splits)
            from Cons.IH[OF Cons.prems(1) rest]
            have ih: "list_workspaces dir (Some P) ws (filter (\<lambda>s. project s = P) r) =
                Inr (filter (\<lambda>s. project s = P) all)" .
            show ?thesis
            proof (cases "pn = P")
              case True
              with r have "append_sessions pn (dir @ ''/'' @ ws_name w @ ''/state.vscdb'') db chat_data
                  (filter (\<lambda>s. project s = P) acc) = Inr (filter (\<lambda>s. project s = P) r)"
                using append_sessions_filter_same by blast
              with dir Some Inr cd ne ih True show ?thesis
                by (simp add: filtered_out_def pn_def[symmetric] Let_def)
            next
              case False
              with r have "filter (\<lambda>s. project s = P) r = filter (\<lambda>s. project s = P) acc"
                using append_sessions_filter_other by blast
              with dir Some Inr cd ne ih False Cons.prems(1) show ?thesis
                by (simp add: filtered_out_def pn_def[symmetric] Let_def)
            qed
          qed
        qed
      qed
    qed
  qed
qed

lemma list_workspaces_empty_filter:
  "list_workspaces dir (Some []) ws acc = list_workspaces dir None ws acc"
  by (induction ws arbitrary: acc)
     (auto simp: filtered_out_def Let_def split: option.splits sum.splits)

text \<open>
  Claim C6, as amended. For every project label \<open>P\<close> that is not the empty string, when
  the listing without a filter returns, the listing filtered by \<open>P\<close> returns exactly its
  sessions whose project label is \<open>P\<close>, in the same order. The empty string is no filter:
  the listing filtered by it is the listing without a filter.
\<close>

theorem project_filter_selects:
  "(P \<noteq> [] \<and> list_sessions st None = Inr all \<longrightarrow>
      list_sessions st (Some P) = Inr (filter (\<lambda>s. project s = P) all)) \<and>
   list_sessions st (Some []) = list_sessions st None"
proof (intro conjI impI)
  assume "P \<noteq> [] \<and> list_sessions st None = Inr all"
  then show "list_sessions st (Some P) = Inr (filter (\<lambda>s. project s = P) all)"
    using list_workspaces_filter[of P "storage_dir st" "workspaces st" "[]" all]
    by (auto simp: list_sessions_def split: if_splits)
next
  show "list_sessions st (Some []) = list_sessions st None"
    by (simp add: list_sessions_def list_workspaces_empty_filter)
qed

theorem project_filter_selects_witness:
  "list_sessions ex_storage None = Inr [ex_info, ex_other] \<and>
   list_sessions ex_storage (Some ''/home/u/proj'') = Inr [ex_info]"
  using project_filter_selects [of "''/home/u/proj''" ex_storage "[ex_info, ex_other]"]
  by (simp add: ex_list_simps)

text \<open>
  Claim C6, as stated, at the empty project label: the guard \<^verbatim>\<open>if project_filter and ...\<close>
  takes an empty filter for no filter, so every session is returned although none has the
  empty label.
\<close>

theorem empty_project_filter_selects_all:
  "list_sessions ex_storage None = Inr [ex_info, ex_other] \<and>
   list_sessions ex_storage (Some []) = Inr [ex_info, ex_other] \<and>
   project ex_info \<noteq> [] \<and> project ex_other \<noteq> []"
  by (simp add: ex_list_simps)


section \<open>The listing and the message bodies\<close>































end
